theory Spec2Isabelle
  imports Complex_Main "HOL-Library.Sublist" "HOL-Library.Multiset"
    "HOL-Library.Product_Lexorder" "HOL-Library.AList"
begin

section \<open>JavaScript strings\<close>

text \<open>
  A string is a list of code units; the model covers the code units 0..255 (ASCII and
  Latin-1), which is what \<^typ>\<open>char\<close> holds.  \<open>is_ws\<close> is the white space of
  \<^verbatim>\<open>\s\<close> and of \<^verbatim>\<open>String.prototype.trim\<close> in that range: TAB, LF, VT, FF, CR,
  SPACE and NBSP.
\<close>

definition is_ws :: "char \<Rightarrow> bool" where
  "is_ws c = ((of_char c :: nat) \<in> {9, 10, 11, 12, 13, 32, 160})"

definition lower_char :: "char \<Rightarrow> char" where
  "lower_char c =
     (let n = (of_char c :: nat) in
      if (65 \<le> n \<and> n \<le> 90) \<or> (192 \<le> n \<and> n \<le> 222 \<and> n \<noteq> 215)
      then char_of (n + 32) else c)"

definition toLowerCase :: "string \<Rightarrow> string" where
  "toLowerCase s = map lower_char s"

definition trim :: "string \<Rightarrow> string" where
  "trim s = rev (dropWhile is_ws (rev (dropWhile is_ws s)))"

text \<open>
  \<^verbatim>\<open>s.split(/\s+/)\<close>: the pieces between the maximal runs of white space.  A run at
  the start or at the end leaves an empty piece there, and the empty string splits into
  the one empty piece.
\<close>

fun split_go :: "bool \<Rightarrow> string \<Rightarrow> string list" where
  "split_go inws [] = [[]]"
| "split_go inws (c # cs) =
     (if is_ws c then (if inws then split_go True cs else [] # split_go True cs)
      else (case split_go False cs of
              [] \<Rightarrow> [[c]]
            | t # ts \<Rightarrow> (c # t) # ts))"

definition split_ws :: "string \<Rightarrow> string list" where
  "split_ws s = split_go False s"

text \<open>\<^verbatim>\<open>s.includes(w)\<close>: \<open>w\<close> occurs in \<open>s\<close> as a contiguous run.\<close>

fun str_includes :: "string \<Rightarrow> string \<Rightarrow> bool" where
  "str_includes [] w = (w = [])"
| "str_includes (c # cs) w = (prefix w (c # cs) \<or> str_includes cs w)"

text \<open>
  \<^verbatim>\<open>m / n >= 0.5\<close> on two counts.  Division by zero does not raise in JavaScript:
  \<^verbatim>\<open>0 / 0\<close> is NaN, which compares false with everything, and \<^verbatim>\<open>m / 0\<close> for a
  positive \<open>m\<close> is Infinity.  For counts below \<open>2^53\<close> the double quotient is on the
  same side of 0.5 as the exact one.
\<close>

definition ratio_ge_half :: "nat \<Rightarrow> nat \<Rightarrow> bool" where
  "ratio_ge_half m n =
     (if n = 0 then 0 < m else (1 / 2 :: rat) \<le> of_nat m / of_nat n)"

section \<open>JavaScript numbers and dates\<close>

text \<open>
  Scores are doubles in the program; the model computes with exact rationals.
  \<^verbatim>\<open>Math.round(x)\<close> is \<open>\<lfloor>x + 1/2\<rfloor>\<close>, and \<open>round2\<close> is the idiom
  \<^verbatim>\<open>Math.round(x * 100) / 100\<close>.
\<close>

definition js_round :: "rat \<Rightarrow> int" where
  "js_round x = \<lfloor>x + 1 / 2\<rfloor>"

definition round2 :: "rat \<Rightarrow> rat" where
  "round2 x = of_int (js_round (x * 100)) / 100"


text \<open>
  A \<^verbatim>\<open>Date\<close> is its time value, the milliseconds since the epoch.  Local time is UTC
  plus a fixed offset \<open>tz\<close> (milliseconds): the model has no daylight-saving change, so
  every local day has \<open>day_ms\<close> milliseconds.  \<open>addDays t k\<close> is
  \<^verbatim>\<open>t.setDate(t.getDate() + k)\<close>, \<open>setHours tz t h\<close> is \<^verbatim>\<open>t.setHours(h, 0, 0, 0)\<close>,
  and \<open>iso_date t\<close> is the day number that \<^verbatim>\<open>t.toISOString().split('T')[0]\<close> names.
\<close>

type_synonym ident = string
type_synonym time = int

definition day_ms :: int where
  "day_ms = 86400000"

definition hour_ms :: int where
  "hour_ms = 3600000"

definition addDays :: "time \<Rightarrow> int \<Rightarrow> time" where
  "addDays t k = t + k * day_ms"

definition local_day :: "int \<Rightarrow> time \<Rightarrow> int" where
  "local_day tz t = (t + tz) div day_ms"

definition local_ms_of_day :: "int \<Rightarrow> time \<Rightarrow> int" where
  "local_ms_of_day tz t = (t + tz) mod day_ms"

definition setHours :: "int \<Rightarrow> time \<Rightarrow> int \<Rightarrow> time" where
  "setHours tz t h = local_day tz t * day_ms + h * hour_ms - tz"

definition iso_date :: "time \<Rightarrow> int" where
  "iso_date t = t div day_ms"

section \<open>The content store\<close>

text \<open>
  The Prisma schema is not part of the sources at hand; the records hold the fields that
  the code reads and writes.  The store is the five tables, each in its stored order, and
  a counter that stands for the keys the database generates.
\<close>

record question =
  q_id :: ident
  q_bookmarkId :: ident
  q_type :: string
  questionText :: string
  options :: "string list option"
  correctAnswer :: string
  explanation :: "string option"
  difficulty :: string

record bookmark =
  b_id :: ident
  title :: string
  categoryId :: "ident option"
  lastReviewedAt :: "time option"
  nextReviewAt :: "time option"
  createdAt :: time

record category =
  c_id :: ident
  c_name :: string

record quizAttempt =
  a_id :: nat
  a_bookmarkId :: ident
  score :: rat
  totalQuestions :: nat
  timeTaken :: rat
  attemptedAt :: time

record userAnswer =
  ua_attemptId :: nat
  ua_questionId :: ident
  ua_selectedAnswer :: string
  ua_isCorrect :: bool

record store =
  bookmarks :: "bookmark list"
  categories :: "category list"
  questions :: "question list"
  quizAttempts :: "quizAttempt list"
  userAnswers :: "userAnswer list"
  next_id :: nat

datatype error = ValidationError | NotFound

text \<open>
  \<^verbatim>\<open>orderBy: { attemptedAt: 'desc' }\<close> and \<^verbatim>\<open>'asc'\<close>; rows with equal keys keep their
  stored order.
\<close>

definition attemptsDesc :: "quizAttempt list \<Rightarrow> quizAttempt list" where
  "attemptsDesc as = sort_key (\<lambda>a. - attemptedAt a) as"


definition attemptsOf :: "store \<Rightarrow> ident \<Rightarrow> quizAttempt list" where
  "attemptsOf s bid = filter (\<lambda>a. a_bookmarkId a = bid) (quizAttempts s)"

definition questionsOf :: "store \<Rightarrow> ident \<Rightarrow> question list" where
  "questionsOf s bid = filter (\<lambda>q. q_bookmarkId q = bid) (questions s)"

definition findBookmark :: "store \<Rightarrow> ident \<Rightarrow> bookmark option" where
  "findBookmark s bid = find (\<lambda>b. b_id b = bid) (bookmarks s)"

definition findQuestion :: "store \<Rightarrow> ident \<Rightarrow> question option" where
  "findQuestion s qid = find (\<lambda>q. q_id q = qid) (questions s)"

definition findCategory :: "store \<Rightarrow> ident \<Rightarrow> category option" where
  "findCategory s cid = find (\<lambda>c. c_id c = cid) (categories s)"

definition categoryOf :: "store \<Rightarrow> bookmark \<Rightarrow> category option" where
  "categoryOf s b = (case categoryId b of None \<Rightarrow> None | Some cid \<Rightarrow> findCategory s cid)"

section \<open>Answer evaluation: \<^verbatim>\<open>checkAnswer\<close> of routes/quiz.js (src/unnamed/part_003)\<close>

definition checkAnswer :: "question \<Rightarrow> string \<Rightarrow> bool" where
  "checkAnswer question selectedAnswer =
     (let correct = trim (toLowerCase (correctAnswer question));
          selected = trim (toLowerCase selectedAnswer)
      in if q_type question = ''mcq'' then correct = selected
         else if q_type question = ''short'' \<or> q_type question = ''scenario'' then
           (let correctWords = filter (\<lambda>w. 3 < length w) (split_ws correct);
                selectedWords = split_ws selected;
                matchCount = length (filter (\<lambda>w.
                    list_ex (\<lambda>sw. str_includes sw w \<or> str_includes w sw) selectedWords) correctWords)
            in ratio_ge_half matchCount (length correctWords))
         else if q_type question = ''flashcard'' then
           str_includes correct selected \<or> str_includes selected correct \<or> correct = selected
         else False)"

text \<open>
  The rule for short and scenario questions in the words of the specification: the key
  terms of a question, and when a key term is matched by a submitted answer.
\<close>

definition key_terms :: "question \<Rightarrow> string list" where
  "key_terms q =
     filter (\<lambda>w. 3 < length w) (split_ws (trim (toLowerCase (correctAnswer q))))"

definition answer_tokens :: "string \<Rightarrow> string list" where
  "answer_tokens a = split_ws (trim (toLowerCase a))"

definition term_matched :: "string \<Rightarrow> string \<Rightarrow> bool" where
  "term_matched a w = (\<exists>t \<in> set (answer_tokens a). sublist w t \<or> sublist t w)"

definition matched_count :: "question \<Rightarrow> string \<Rightarrow> nat" where
  "matched_count q a = card {i. i < length (key_terms q) \<and> term_matched a (key_terms q ! i)}"

section \<open>Revision scheduling: services/revisionEngine.js\<close>

definition calculateNextReviewDate :: "int \<Rightarrow> time \<Rightarrow> rat \<Rightarrow> time" where
  "calculateNextReviewDate tz now sc =
     (let daysToAdd = (if 80 \<le> sc then 5 else if 50 \<le> sc then 3 else 1);
          nextReview = addDays now daysToAdd
      in setHours tz nextReview 9)"

record revisionUpdate =
  ru_lastReviewedAt :: time
  ru_nextReviewAt :: time

text \<open>
  \<^verbatim>\<open>prisma.bookmark.update\<close> writes the two fields of the row with the given key.  Both
  \<^verbatim>\<open>new Date()\<close> of one call are the same instant \<open>now\<close> in the model.
\<close>

definition updateRevisionSchedule ::
    "int \<Rightarrow> time \<Rightarrow> store \<Rightarrow> ident \<Rightarrow> rat \<Rightarrow> revisionUpdate \<times> store" where
  "updateRevisionSchedule tz now s bookmarkId sc =
     (let next = calculateNextReviewDate tz now sc
      in (\<lparr>ru_lastReviewedAt = now, ru_nextReviewAt = next\<rparr>,
          s\<lparr>bookmarks := map (\<lambda>b. if b_id b = bookmarkId
                                     then b\<lparr>lastReviewedAt := Some now, nextReviewAt := Some next\<rparr>
                                     else b) (bookmarks s)\<rparr>))"

text \<open>
  A bookmark as a query returns it, with the relations the query includes.
  \<open>lb_questions\<close> is \<open>None\<close> when the query does not include the questions (the
  property is \<^verbatim>\<open>undefined\<close> on the object); \<open>lb_avgRecentScore\<close> and
  \<open>lb_attemptCount\<close> are the two properties \<^verbatim>\<open>getWeakestBookmarks\<close> adds.
\<close>

record loadedBookmark =
  lb_bookmark :: bookmark
  lb_category :: "category option"
  lb_questions :: "question list option"
  lb_quizAttempts :: "quizAttempt list"
  lb_avgRecentScore :: "rat option"
  lb_attemptCount :: "nat option"

text \<open>
  The query of \<^verbatim>\<open>getDueBookmarks\<close> orders by \<^verbatim>\<open>nextReviewAt\<close> ascending, then by
  \<^verbatim>\<open>createdAt\<close> ascending, and says nothing about nulls: Prisma then emits a plain
  \<^verbatim>\<open>ORDER BY ... ASC\<close> and the database decides where the rows without a
  \<^verbatim>\<open>nextReviewAt\<close> go.  PostgreSQL, the database the README names, sorts nulls as larger
  than every value (\<open>NullsLast\<close>); SQLite and MySQL sort them as smaller
  (\<open>NullsFirst\<close>).  The model takes the database's choice as a parameter.
\<close>

datatype nullsOrder = NullsFirst | NullsLast

definition dueKey :: "nullsOrder \<Rightarrow> bookmark \<Rightarrow> nat \<times> int \<times> int" where
  "dueKey nulls b =
     (case nextReviewAt b of
        None \<Rightarrow> ((case nulls of NullsFirst \<Rightarrow> 0 | NullsLast \<Rightarrow> 2), 0, createdAt b)
      | Some t \<Rightarrow> (1, t, createdAt b))"

definition isDue :: "time \<Rightarrow> bookmark \<Rightarrow> bool" where
  "isDue now b =
     ((case nextReviewAt b of None \<Rightarrow> False | Some t \<Rightarrow> t \<le> now)
      \<or> (nextReviewAt b = None \<and> lastReviewedAt b = None))"

definition loadDue :: "store \<Rightarrow> bookmark \<Rightarrow> loadedBookmark" where
  "loadDue s b =
     \<lparr>lb_bookmark = b,
      lb_category = categoryOf s b,
      lb_questions = Some (take 5 (filter (\<lambda>q. q_type q = ''mcq'') (questionsOf s (b_id b)))),
      lb_quizAttempts = take 1 (attemptsDesc (attemptsOf s (b_id b))),
      lb_avgRecentScore = None,
      lb_attemptCount = None\<rparr>"

definition getDueBookmarks :: "nullsOrder \<Rightarrow> time \<Rightarrow> store \<Rightarrow> nat \<Rightarrow> loadedBookmark list" where
  "getDueBookmarks nulls now s limit =
     map (loadDue s) (take limit (sort_key (dueKey nulls) (filter (isDue now) (bookmarks s))))"

definition loadWithScores :: "store \<Rightarrow> bookmark \<Rightarrow> loadedBookmark" where
  "loadWithScores s b =
     \<lparr>lb_bookmark = b,
      lb_category = categoryOf s b,
      lb_questions = None,
      lb_quizAttempts = take 3 (attemptsDesc (attemptsOf s (b_id b))),
      lb_avgRecentScore = None,
      lb_attemptCount = None\<rparr>"

definition scoreBookmark :: "loadedBookmark \<Rightarrow> loadedBookmark" where
  "scoreBookmark bookmark =
     (let attempts = lb_quizAttempts bookmark;
          avgScore = (if 0 < length attempts
                      then sum_list (map score attempts) / of_nat (length attempts)
                      else 0)
      in bookmark\<lparr>lb_avgRecentScore := Some avgScore, lb_attemptCount := Some (length attempts)\<rparr>)"

definition avgRecent :: "loadedBookmark \<Rightarrow> rat" where
  "avgRecent b = (case lb_avgRecentScore b of None \<Rightarrow> 0 | Some v \<Rightarrow> v)"

definition attemptCnt :: "loadedBookmark \<Rightarrow> nat" where
  "attemptCnt b = (case lb_attemptCount b of None \<Rightarrow> 0 | Some n \<Rightarrow> n)"

definition getWeakestBookmarks :: "store \<Rightarrow> nat \<Rightarrow> loadedBookmark list" where
  "getWeakestBookmarks s limit =
     (let bookmarksWithScores = map (loadWithScores s) (bookmarks s);
          scored = map scoreBookmark bookmarksWithScores
      in take limit (sort_key avgRecent (filter (\<lambda>b. 0 < attemptCnt b) scored)))"

record reviewQuestion =
  rq_question :: question
  bookmarkTitle :: string

record reviewSet =
  rs_bookmarks :: "loadedBookmark list"
  rs_questions :: "reviewQuestion list"
  totalDue :: nat

definition lb_id :: "loadedBookmark \<Rightarrow> ident" where
  "lb_id b = b_id (lb_bookmark b)"

definition firstQuestion :: "loadedBookmark \<Rightarrow> reviewQuestion list" where
  "firstQuestion bookmark =
     (case lb_questions bookmark of
        None \<Rightarrow> []
      | Some [] \<Rightarrow> []
      | Some (q # qs) \<Rightarrow> [\<lparr>rq_question = q, bookmarkTitle = title (lb_bookmark bookmark)\<rparr>])"

definition createDailyReviewSet :: "nullsOrder \<Rightarrow> time \<Rightarrow> store \<Rightarrow> reviewSet" where
  "createDailyReviewSet nulls now s =
     (let dueBookmarks = getDueBookmarks nulls now s 5;
          weakBookmarks = getWeakestBookmarks s 3;
          dueIds = set (map lb_id dueBookmarks);
          combined = dueBookmarks @ filter (\<lambda>weak. lb_id weak \<notin> dueIds) weakBookmarks;
          qs = concat (map firstQuestion (take 5 combined))
      in \<lparr>rs_bookmarks = take 5 combined,
          rs_questions = take 5 qs,
          totalDue = length combined\<rparr>)"

subsection \<open>Notions used to state the scheduling properties\<close>

text \<open>
  \<open>dueIn\<close> is the list of stored bookmarks that are due; \<open>dueBefore\<close> is the order the
  result is meant to have: ascending \<open>nextReviewAt\<close>, the rows without one on the side the
  database puts them, ties broken by ascending \<open>createdAt\<close>.
\<close>

definition dueIn :: "time \<Rightarrow> store \<Rightarrow> bookmark list" where
  "dueIn now s = filter (isDue now) (bookmarks s)"

definition dueBefore :: "nullsOrder \<Rightarrow> bookmark \<Rightarrow> bookmark \<Rightarrow> bool" where
  "dueBefore nulls a b =
     (case (nextReviewAt a, nextReviewAt b) of
        (None, None) \<Rightarrow> createdAt a \<le> createdAt b
      | (None, Some y) \<Rightarrow> nulls = NullsFirst
      | (Some x, None) \<Rightarrow> nulls = NullsLast
      | (Some x, Some y) \<Rightarrow> x < y \<or> (x = y \<and> createdAt a \<le> createdAt b))"

definition dueResult :: "nullsOrder \<Rightarrow> time \<Rightarrow> store \<Rightarrow> nat \<Rightarrow> bookmark list" where
  "dueResult nulls now s limit = map lb_bookmark (getDueBookmarks nulls now s limit)"






text \<open>
  The first multiple-choice question of a bookmark, in stored order, and the combined
  list of the daily review before it is cut to five.
\<close>

definition firstMcq :: "store \<Rightarrow> bookmark \<Rightarrow> reviewQuestion list" where
  "firstMcq s b =
     (case filter (\<lambda>q. q_type q = ''mcq'') (questionsOf s (b_id b)) of
        [] \<Rightarrow> []
      | q # qs \<Rightarrow> [\<lparr>rq_question = q, bookmarkTitle = title b\<rparr>])"

definition dailyCombined :: "nullsOrder \<Rightarrow> time \<Rightarrow> store \<Rightarrow> loadedBookmark list" where
  "dailyCombined nulls now s =
     getDueBookmarks nulls now s 5 @
     filter (\<lambda>w. lb_id w \<notin> lb_id ` set (getDueBookmarks nulls now s 5))
       (getWeakestBookmarks s 3)"

section \<open>Quiz submission: \<^verbatim>\<open>POST /submit\<close> of routes/quiz.js (src/unnamed/part_003)\<close>

text \<open>
  The request body as \<^verbatim>\<open>submitQuizSchema\<close> types it.  The schema asks for a UUID in
  \<^verbatim>\<open>bookmarkId\<close> and in every \<^verbatim>\<open>questionId\<close> and for a \<^verbatim>\<open>timeTaken\<close> of at least
  0; \<^verbatim>\<open>answers\<close> is a plain \<^verbatim>\<open>z.array(...)\<close> with no minimum length.  \<open>is_uuid\<close>
  is the shape zod checks: hexadecimal groups of 8, 4, 4, 4 and 12 digits with hyphens
  between them.
\<close>

record answer =
  questionId :: ident
  selectedAnswer :: string

record submission =
  sub_bookmarkId :: ident
  answers :: "answer list"
  sub_timeTaken :: rat

definition is_hex :: "char \<Rightarrow> bool" where
  "is_hex c = (c \<in> set ''0123456789abcdefABCDEF'')"

fun uuid_groups :: "nat list \<Rightarrow> string \<Rightarrow> bool" where
  "uuid_groups [] s = False"
| "uuid_groups [n] s = (length s = n \<and> list_all is_hex s)"
| "uuid_groups (n # m # ns) s =
     (length (take n s) = n \<and> list_all is_hex (take n s) \<and>
      (case drop n s of
         [] \<Rightarrow> False
       | c # rest \<Rightarrow> c = CHR ''-'' \<and> uuid_groups (m # ns) rest))"

definition is_uuid :: "string \<Rightarrow> bool" where
  "is_uuid s = uuid_groups [8, 4, 4, 4, 12] s"

definition submitQuizSchema :: "submission \<Rightarrow> bool" where
  "submitQuizSchema d =
     (is_uuid (sub_bookmarkId d) \<and>
      list_all (\<lambda>a. is_uuid (questionId a)) (answers d) \<and>
      0 \<le> sub_timeTaken d)"

record resultRow =
  r_questionId :: ident
  r_questionText :: string
  r_selectedAnswer :: string
  r_correctAnswer :: string
  r_isCorrect :: bool
  r_explanation :: "string option"

record submitResponse =
  attemptId :: nat
  resp_score :: rat
  resp_correct :: nat
  resp_total :: nat
  resp_timeTaken :: rat
  resp_results :: "resultRow list"
  resp_weakQuestions :: "resultRow list"
  resp_nextReviewAt :: time

definition resultOf :: "question \<Rightarrow> answer \<Rightarrow> resultRow" where
  "resultOf question a =
     \<lparr>r_questionId = q_id question,
      r_questionText = questionText question,
      r_selectedAnswer = selectedAnswer a,
      r_correctAnswer = correctAnswer question,
      r_isCorrect = checkAnswer question (selectedAnswer a),
      r_explanation = explanation question\<rparr>"

text \<open>
  The loop over the answers, with its two accumulators \<^verbatim>\<open>results\<close> and
  \<^verbatim>\<open>correctCount\<close>; an answer whose question is not found is passed over by
  \<^verbatim>\<open>continue\<close>.
\<close>

fun gradeAnswers :: "store \<Rightarrow> answer list \<Rightarrow> resultRow list \<times> nat \<Rightarrow> resultRow list \<times> nat" where
  "gradeAnswers s [] acc = acc"
| "gradeAnswers s (a # rest) (results, correctCount) =
     (case findQuestion s (questionId a) of
        None \<Rightarrow> gradeAnswers s rest (results, correctCount)
      | Some question \<Rightarrow>
          gradeAnswers s rest
            (results @ [resultOf question a],
             if checkAnswer question (selectedAnswer a) then correctCount + 1
             else correctCount))"

definition toUserAnswer :: "nat \<Rightarrow> resultRow \<Rightarrow> userAnswer" where
  "toUserAnswer aid r =
     \<lparr>ua_attemptId = aid, ua_questionId = r_questionId r,
      ua_selectedAnswer = r_selectedAnswer r, ua_isCorrect = r_isCorrect r\<rparr>"

definition submitQuiz ::
    "int \<Rightarrow> time \<Rightarrow> store \<Rightarrow> submission \<Rightarrow> (error + submitResponse) \<times> store" where
  "submitQuiz tz now s d =
     (if \<not> submitQuizSchema d then (Inl ValidationError, s)
      else case findBookmark s (sub_bookmarkId d) of
        None \<Rightarrow> (Inl NotFound, s)
      | Some bookmark \<Rightarrow>
         (let (results, correctCount) = gradeAnswers s (answers d) ([], 0);
              totalQuestions = length results;
              sc = (if 0 < totalQuestions
                    then of_nat correctCount / of_nat totalQuestions * 100 else 0);
              attempt = \<lparr>a_id = next_id s, a_bookmarkId = sub_bookmarkId d, score = sc,
                         totalQuestions = totalQuestions, timeTaken = sub_timeTaken d,
                         attemptedAt = now\<rparr>;
              s1 = s\<lparr>quizAttempts := quizAttempts s @ [attempt], next_id := next_id s + 1\<rparr>;
              s2 = s1\<lparr>userAnswers := userAnswers s1 @ map (toUserAnswer (a_id attempt)) results\<rparr>;
              (revisionUpdate, s3) = updateRevisionSchedule tz now s2 (sub_bookmarkId d) sc;
              weak = filter (\<lambda>r. \<not> r_isCorrect r) results
          in (Inr \<lparr>attemptId = a_id attempt,
                    resp_score = round2 sc,
                    resp_correct = correctCount,
                    resp_total = totalQuestions,
                    resp_timeTaken = sub_timeTaken d,
                    resp_results = results,
                    resp_weakQuestions = weak,
                    resp_nextReviewAt = ru_nextReviewAt revisionUpdate\<rparr>, s3)))"

subsection \<open>Notions used to state the submission properties\<close>





section \<open>Analytics: services/analyticsService.js (in src/frontend/src/App.jsx)\<close>

text \<open>
  A JavaScript object used as a dictionary is an association list in insertion order:
  \<open>AList.update\<close> replaces the value of a key in place and puts a new key at the end,
  which is the order \<^verbatim>\<open>Object.values\<close> and \<^verbatim>\<open>Object.entries\<close> follow for keys that are
  not array indices.  Properties inherited from \<^verbatim>\<open>Object.prototype\<close> are not modelled.
\<close>

record dayData =
  dd_date :: int
  dd_scores :: "rat list"
  dd_attempts :: nat










subsection \<open>Notions used to state the trend properties\<close>



text \<open>
  What the second loop of \<^verbatim>\<open>getPerformanceTrend\<close> adds to the entry of day \<open>k\<close>
  over a list of attempts, the entry a day starts with, and the attempts the query of
  \<^verbatim>\<open>getPerformanceTrend\<close> returns.
\<close>

definition addAll :: "int \<Rightarrow> quizAttempt list \<Rightarrow> dayData \<Rightarrow> dayData" where
  "addAll k as day =
     day\<lparr>dd_scores := dd_scores day @ map score (filter (\<lambda>a. iso_date (attemptedAt a) = k) as),
         dd_attempts := dd_attempts day + length (filter (\<lambda>a. iso_date (attemptedAt a) = k) as)\<rparr>"



section \<open>The route \<^verbatim>\<open>GET /weakest\<close>: routes/analytics.js\<close>

text \<open>
  The route does not call \<^verbatim>\<open>getWeakestBookmarks\<close>; it has a query and a ranking of
  its own, over the five latest attempts and the average rounded to two decimals.
  \<open>slice0 n\<close> is \<^verbatim>\<open>.slice(0, n)\<close> for an integer \<open>n\<close>: a negative \<open>n\<close> counts from
  the end.
\<close>

record weakRow =
  w_id :: ident
  w_title :: string
  w_category :: "string option"
  w_avgScore :: "rat option"
  w_attemptCount :: nat
  w_lastAttempt :: "time option"

definition slice0 :: "int \<Rightarrow> 'a list \<Rightarrow> 'a list" where
  "slice0 n xs = (if 0 \<le> n then take (nat n) xs else take (length xs - nat (- n)) xs)"

definition weakRowOf :: "store \<Rightarrow> bookmark \<Rightarrow> weakRow" where
  "weakRowOf s bookmark =
     (let attempts = take 5 (attemptsDesc (attemptsOf s (b_id bookmark)));
          avgScore = (if 0 < length attempts
                      then Some (sum_list (map score attempts) / of_nat (length attempts))
                      else None)
      in \<lparr>w_id = b_id bookmark,
          w_title = title bookmark,
          w_category = map_option c_name (categoryOf s bookmark),
          w_avgScore = map_option round2 avgScore,
          w_attemptCount = length attempts,
          w_lastAttempt = (case attempts of [] \<Rightarrow> None | a # as \<Rightarrow> Some (attemptedAt a))\<rparr>)"

definition weakestRoute :: "store \<Rightarrow> int \<Rightarrow> weakRow list" where
  "weakestRoute s limit =
     (let scored = map (weakRowOf s) (bookmarks s)
      in slice0 limit
           (sort_key (\<lambda>b. case w_avgScore b of None \<Rightarrow> 0 | Some v \<Rightarrow> v)
              (filter (\<lambda>b. w_avgScore b \<noteq> None) scored)))"

section \<open>Insights: services/insightEngine.js (in src/backend/src/services/revisionEngine.js)\<close>

text \<open>
  An insight record without its \<^verbatim>\<open>message\<close>, which is a text built from the other
  fields.  A field that a rule does not set is \<open>None\<close>.
\<close>

datatype priority = Critical | Warning | Info | Positive


record insight =
  i_type :: string
  i_priority :: priority
  i_category :: "string option"
  i_questionType :: "string option"
  i_metric :: "rat option"
  i_bookmarks :: "(ident \<times> string) list option"

definition mkInsight :: "string \<Rightarrow> priority \<Rightarrow> rat \<Rightarrow> insight" where
  "mkInsight ty p m =
     \<lparr>i_type = ty, i_priority = p, i_category = None, i_questionType = None,
      i_metric = Some m, i_bookmarks = None\<rparr>"



text \<open>
  Rule 3 and rule 4 read \<^verbatim>\<open>categoryStats\<close>, the scores of the attempts grouped under the
  name of the bookmark's category, \<^verbatim>\<open>'Uncategorized'\<close> when there is no bookmark, no
  category or an empty name.  \<open>pushScore\<close> is one turn of the loop that fills it: the
  entry is created on the first score of a name and extended afterwards.
\<close>

record catStat =
  cs_scores :: "rat list"
  cs_category :: "category option"




definition weakCategoryOf :: "string \<times> catStat \<Rightarrow> insight list" where
  "weakCategoryOf e =
     (case e of (name, d) \<Rightarrow>
        if 3 \<le> length (cs_scores d) then
          (let avgScore = sum_list (cs_scores d) / of_nat (length (cs_scores d))
           in if avgScore < 50
              then [(mkInsight ''weak_category'' Critical avgScore)\<lparr>i_category := Some name\<rparr>]
              else [])
        else [])"








subsection \<open>Notions used to state the insight property\<close>



section \<open>Example data\<close>

definition ex_short :: question where
  "ex_short = \<lparr>q_id = ''q1'', q_bookmarkId = ''b1'', q_type = ''short'',
      questionText = ''What does spaced repetition do?'', options = None,
      correctAnswer = ''Spaced Repetition improves recall'', explanation = None,
      difficulty = ''easy''\<rparr>"

definition ex_flashcard :: question where
  "ex_flashcard = \<lparr>q_id = ''q2'', q_bookmarkId = ''b1'', q_type = ''flashcard'',
      questionText = ''Capital of France?'', options = None,
      correctAnswer = ''Paris'', explanation = None, difficulty = ''easy''\<rparr>"

definition mkQuestion :: "ident \<Rightarrow> ident \<Rightarrow> string \<Rightarrow> string \<Rightarrow> question" where
  "mkQuestion qid bid ty ans =
     \<lparr>q_id = qid, q_bookmarkId = bid, q_type = ty, questionText = ''Q'', options = None,
      correctAnswer = ans, explanation = None, difficulty = ''easy''\<rparr>"

definition mkAttempt :: "nat \<Rightarrow> ident \<Rightarrow> rat \<Rightarrow> time \<Rightarrow> quizAttempt" where
  "mkAttempt i bid sc t =
     \<lparr>a_id = i, a_bookmarkId = bid, score = sc, totalQuestions = 1, timeTaken = 10,
      attemptedAt = t\<rparr>"

text \<open>
  A store with three bookmarks, read at time 10: \<open>bA\<close> was never reviewed and has one
  short-answer question; \<open>bB\<close> is overdue, has four attempts and a short-answer question
  stored before a multiple-choice one; \<open>bC\<close> is not due and has one attempt.
\<close>

definition bA :: bookmark where
  "bA = \<lparr>b_id = ''bA'', title = ''A'', categoryId = None, lastReviewedAt = None,
         nextReviewAt = None, createdAt = 1\<rparr>"

definition bB :: bookmark where
  "bB = \<lparr>b_id = ''bB'', title = ''B'', categoryId = None, lastReviewedAt = Some 4,
         nextReviewAt = Some 5, createdAt = 2\<rparr>"

definition bC :: bookmark where
  "bC = \<lparr>b_id = ''bC'', title = ''C'', categoryId = None, lastReviewedAt = Some 3,
         nextReviewAt = Some 100, createdAt = 3\<rparr>"

definition ex_store :: store where
  "ex_store =
     \<lparr>bookmarks = [bA, bB, bC],
      categories = [],
      questions = [mkQuestion ''qA'' ''bA'' ''short'' ''alpha'',
                   mkQuestion ''qB0'' ''bB'' ''short'' ''beta'',
                   mkQuestion ''qB1'' ''bB'' ''mcq'' ''gamma'',
                   mkQuestion ''qC'' ''bC'' ''mcq'' ''delta''],
      quizAttempts = [mkAttempt 0 ''bB'' 40 1, mkAttempt 1 ''bB'' 90 2, mkAttempt 2 ''bC'' 30 3,
                      mkAttempt 3 ''bB'' 20 3, mkAttempt 4 ''bB'' 60 4],
      userAnswers = [],
      next_id = 5\<rparr>"













section \<open>Properties\<close>

subsection \<open>The answer evaluator\<close>

lemma str_includes_sublist: "str_includes s w = sublist w s"
  by (induction s) (auto simp: sublist_Cons_right)

lemma str_includes_Nil [simp]: "str_includes s []"
  by (induction s) auto

lemma ratio_ge_half_pos: "0 < n \<Longrightarrow> ratio_ge_half m n = (n \<le> 2 * m)"
proof -
  assume n: "0 < n"
  have "((1 / 2 :: rat) \<le> of_nat m / of_nat n) = ((of_nat n :: rat) \<le> 2 * of_nat m)"
    using n by (simp add: field_simps)
  also have "\<dots> = (n \<le> 2 * m)"
    by (metis of_nat_le_iff of_nat_mult of_nat_numeral)
  finally show ?thesis using n by (simp add: ratio_ge_half_def)
qed

lemma matched_count_filter:
  "matched_count q a = length (filter (term_matched a) (key_terms q))"
  by (simp add: matched_count_def length_filter_conv_card)

lemma list_ex_matched:
  "list_ex (\<lambda>sw. str_includes sw w \<or> str_includes w sw) (split_ws (trim (toLowerCase a)))
     = term_matched a w"
  by (simp add: term_matched_def answer_tokens_def list_ex_iff str_includes_sublist)

text \<open>
  Claim C1.  For a question of type \<open>short\<close> or \<open>scenario\<close> and any submitted answer,
  \<open>checkAnswer\<close> returns true exactly when at least half of the key terms are matched.
  The key terms are the white-space tokens of the lower-cased, trimmed correct answer that
  are longer than 3 characters; a key term is matched when it is a substring of some token
  of the submitted answer or that token is a substring of it; with no key term at all the
  result is false (\<^verbatim>\<open>0 / 0\<close> is NaN, and \<^verbatim>\<open>NaN >= 0.5\<close> is false).
\<close>

theorem checkAnswer_short_scenario:
  assumes "q_type q = ''short'' \<or> q_type q = ''scenario''"
  shows "checkAnswer q a =
           (key_terms q \<noteq> [] \<and> length (key_terms q) \<le> 2 * matched_count q a)"
proof -
  have notmcq: "q_type q \<noteq> ''mcq''" using assms by auto
  let ?n = "length (key_terms q)"
  let ?m = "matched_count q a"
  have m_le: "?m \<le> ?n" by (simp add: matched_count_filter)
  have "checkAnswer q a = ratio_ge_half ?m ?n"
    using assms notmcq
    by (simp add: checkAnswer_def Let_def key_terms_def matched_count_filter list_ex_matched
        del: One_nat_def)
  also have "\<dots> = (key_terms q \<noteq> [] \<and> ?n \<le> 2 * ?m)"
  proof (cases "?n = 0")
    case True
    then have "?m = 0" using m_le by simp
    with True show ?thesis by (simp add: ratio_ge_half_def)
  next
    case False
    then show ?thesis using ratio_ge_half_pos[of ?n ?m] by auto
  qed
  finally show ?thesis .
qed

theorem checkAnswer_short_scenario_witness:
  "(q_type ex_short = ''short'' \<or> q_type ex_short = ''scenario'') \<and>
   checkAnswer ex_short ''repetition and recall'' \<and>
   key_terms ex_short = [''spaced'', ''repetition'', ''improves'', ''recall''] \<and>
   length (key_terms ex_short) \<le> 2 * matched_count ex_short ''repetition and recall''"
proof -
  have t: "q_type ex_short = ''short'' \<or> q_type ex_short = ''scenario''"
    by (simp add: ex_short_def)
  have c: "checkAnswer ex_short ''repetition and recall''" by code_simp
  have k: "key_terms ex_short = [''spaced'', ''repetition'', ''improves'', ''recall'']"
    by code_simp
  from c checkAnswer_short_scenario[OF t, of "''repetition and recall''"]
  have "length (key_terms ex_short) \<le> 2 * matched_count ex_short ''repetition and recall''"
    by simp
  with t c k show ?thesis by simp
qed

text \<open>
  Claim C10.  For a flashcard question and a submitted answer whose lower-cased, trimmed
  form is the empty string, \<open>checkAnswer\<close> returns true: the empty string is contained
  in every correct answer.
\<close>

theorem checkAnswer_flashcard_blank:
  assumes "q_type q = ''flashcard''" and "trim (toLowerCase a) = []"
  shows "checkAnswer q a"
  using assms by (simp add: checkAnswer_def)

theorem checkAnswer_flashcard_blank_witness:
  "q_type ex_flashcard = ''flashcard'' \<and> trim (toLowerCase ''  '') = [] \<and>
   checkAnswer ex_flashcard ''  ''"
proof -
  have t: "q_type ex_flashcard = ''flashcard''" by (simp add: ex_flashcard_def)
  have b: "trim (toLowerCase ''  '') = []" by code_simp
  show ?thesis using t b checkAnswer_flashcard_blank[OF t b] by simp
qed

subsection \<open>The review date\<close>

lemma local_day_addDays: "local_day tz (addDays t k) = local_day tz t + k"
proof -
  have "(t + k * day_ms + tz) div day_ms = (t + tz + k * day_ms) div day_ms"
    by (simp add: algebra_simps)
  also have "\<dots> = (t + tz) div day_ms + k"
    by (simp add: day_ms_def)
  finally show ?thesis by (simp add: local_day_def addDays_def)
qed

lemma setHours_local:
  assumes "0 \<le> h" "h < 24"
  shows "local_day tz (setHours tz t h) = local_day tz t"
    and "local_ms_of_day tz (setHours tz t h) = h * hour_ms"
proof -
  have eq: "setHours tz t h + tz = h * hour_ms + local_day tz t * day_ms"
    by (simp add: setHours_def)
  have b: "0 \<le> h * hour_ms" "h * hour_ms < day_ms"
    using assms by (simp_all add: hour_ms_def day_ms_def)
  show "local_day tz (setHours tz t h) = local_day tz t"
    unfolding local_day_def[of tz "setHours tz t h"] eq using b
    by (simp add: day_ms_def)
  show "local_ms_of_day tz (setHours tz t h) = h * hour_ms"
    unfolding local_ms_of_day_def eq using b
    by (simp add: day_ms_def)
qed

text \<open>
  Claim C2.  For every score the next review falls on the local day of \<open>now\<close> plus 5
  days when the score is at least 80, plus 3 days when it is at least 50 and below 80, and
  plus 1 day when it is below 50; in every case its local time of day is 09:00:00.000,
  whatever the time of day of \<open>now\<close>.
\<close>

theorem calculateNextReviewDate_tiers:
  "(80 \<le> sc \<longrightarrow> local_day tz (calculateNextReviewDate tz now sc) = local_day tz now + 5) \<and>
   (50 \<le> sc \<and> sc < 80 \<longrightarrow> local_day tz (calculateNextReviewDate tz now sc) = local_day tz now + 3) \<and>
   (sc < 50 \<longrightarrow> local_day tz (calculateNextReviewDate tz now sc) = local_day tz now + 1) \<and>
   local_ms_of_day tz (calculateNextReviewDate tz now sc) = 9 * hour_ms"
  by (simp add: calculateNextReviewDate_def Let_def setHours_local local_day_addDays)

theorem calculateNextReviewDate_tiers_witness:
  "local_day 19800000 (calculateNextReviewDate 19800000 1700000000000 95)
     = local_day 19800000 1700000000000 + 5 \<and>
   local_day 19800000 (calculateNextReviewDate 19800000 1700000000000 65)
     = local_day 19800000 1700000000000 + 3 \<and>
   local_day 19800000 (calculateNextReviewDate 19800000 1700000000000 30)
     = local_day 19800000 1700000000000 + 1 \<and>
   calculateNextReviewDate 19800000 1700000000000 95 = 1700451000000 \<and>
   local_ms_of_day 19800000 1700451000000 = 9 * hour_ms"
  using calculateNextReviewDate_tiers[of 95 19800000 1700000000000]
        calculateNextReviewDate_tiers[of 65 19800000 1700000000000]
        calculateNextReviewDate_tiers[of 30 19800000 1700000000000]
  by (simp add: calculateNextReviewDate_def setHours_def addDays_def local_day_def
      day_ms_def hour_ms_def)

subsection \<open>Due and weakest bookmarks\<close>

lemma take_sort_key_mset: "mset (take n (sort_key k xs)) \<subseteq># mset xs"
proof -
  have "mset (take n (sort_key k xs))
          \<subseteq># mset (take n (sort_key k xs)) + mset (drop n (sort_key k xs))"
    by simp
  also have "\<dots> = mset (sort_key k xs)"
    by (metis append_take_drop_id mset_append)
  finally show ?thesis by simp
qed

lemma take_sort_key_sorted: "sorted (map k (take n (sort_key k xs)))"
proof -
  have "sorted (take n (map k (sort_key k xs)))"
    by (rule sorted_wrt_take) simp
  then show ?thesis by (simp add: take_map)
qed

lemma take_sort_key_rest:
  assumes "x \<in> set (take n (sort_key k xs))"
    and "y \<in># mset xs - mset (take n (sort_key k xs))"
  shows "k x \<le> k y"
proof -
  let ?ys = "sort_key k xs"
  have "mset xs = mset (take n ?ys) + mset (drop n ?ys)"
    by (metis append_take_drop_id mset_append mset_sort)
  then have "mset xs - mset (take n ?ys) = mset (drop n ?ys)" by simp
  with assms(2) have y: "y \<in> set (drop n ?ys)" by simp
  have "sorted (map k (take n ?ys @ drop n ?ys))" by simp
  then have "\<forall>a \<in> set (take n ?ys). \<forall>b \<in> set (drop n ?ys). k a \<le> k b"
    unfolding map_append sorted_append by auto
  with assms(1) y show ?thesis by blast
qed



lemma dueKey_le: "(dueKey nulls a \<le> dueKey nulls b) = dueBefore nulls a b"
  by (cases nulls) (auto simp: dueKey_def dueBefore_def split: option.splits)

lemma lb_bookmark_loadDue [simp]: "lb_bookmark (loadDue s b) = b"
  by (simp add: loadDue_def)

lemma dueResult_eq:
  "dueResult nulls now s limit = take limit (sort_key (dueKey nulls) (dueIn now s))"
  by (simp add: dueResult_def getDueBookmarks_def dueIn_def comp_def)

text \<open>
  Claim C3, as the code has it.  \<open>getDueBookmarks\<close> returns bookmarks that are due
  (\<open>nextReviewAt \<le> now\<close>, or \<open>nextReviewAt\<close> and \<open>lastReviewedAt\<close> both null), each at
  most as often as it is stored; it returns \<open>limit\<close> of them, or all when fewer are due;
  the result is in ascending order of \<open>nextReviewAt\<close> with ties broken by ascending
  creation time, and the bookmarks without a \<open>nextReviewAt\<close> stand where the database's
  ascending order puts nulls (after all others on PostgreSQL, before them where nulls sort
  first); every due bookmark that is left out stands, in that order, after every bookmark
  returned.
\<close>

theorem getDueBookmarks_order:
  "mset (dueResult nulls now s limit) \<subseteq># mset (dueIn now s) \<and>
   length (dueResult nulls now s limit) = min limit (length (dueIn now s)) \<and>
   sorted_wrt (dueBefore nulls) (dueResult nulls now s limit) \<and>
   (\<forall>x \<in> set (dueResult nulls now s limit).
      \<forall>y \<in># mset (dueIn now s) - mset (dueResult nulls now s limit). dueBefore nulls x y) \<and>
   (\<forall>b. b \<in> set (dueIn now s) \<longleftrightarrow>
      b \<in> set (bookmarks s) \<and>
      ((\<exists>t. nextReviewAt b = Some t \<and> t \<le> now)
       \<or> (nextReviewAt b = None \<and> lastReviewedAt b = None)))"
proof -
  let ?res = "dueResult nulls now s limit"
  have res: "?res = take limit (sort_key (dueKey nulls) (dueIn now s))"
    by (rule dueResult_eq)
  have 1: "mset ?res \<subseteq># mset (dueIn now s)"
    unfolding res by (rule take_sort_key_mset)
  have 2: "length ?res = min limit (length (dueIn now s))"
    unfolding res by simp
  have "sorted (map (dueKey nulls) ?res)"
    unfolding res by (rule take_sort_key_sorted)
  then have 3: "sorted_wrt (dueBefore nulls) ?res"
    by (simp add: sorted_map dueKey_le)
  have 4: "\<forall>x \<in> set ?res. \<forall>y \<in># mset (dueIn now s) - mset ?res. dueBefore nulls x y"
    unfolding res using take_sort_key_rest[of _ limit "dueKey nulls" "dueIn now s"]
    by (simp add: dueKey_le)
  have 5: "\<forall>b. b \<in> set (dueIn now s) \<longleftrightarrow>
      b \<in> set (bookmarks s) \<and>
      ((\<exists>t. nextReviewAt b = Some t \<and> t \<le> now)
       \<or> (nextReviewAt b = None \<and> lastReviewedAt b = None))"
    by (auto simp: dueIn_def isDue_def split: option.splits)
  from 1 2 3 4 5 show ?thesis by blast
qed

theorem getDueBookmarks_order_witness:
  "dueIn 10 ex_store = [bA, bB] \<and>
   dueResult NullsLast 10 ex_store 1 = [bB] \<and>
   dueBefore NullsLast bB bA \<and>
   dueResult NullsFirst 10 ex_store 5 = [bA, bB] \<and>
   sorted_wrt (dueBefore NullsFirst) (dueResult NullsFirst 10 ex_store 5)"
proof -
  have d: "dueIn 10 ex_store = [bA, bB]" by code_simp
  have r: "dueResult NullsLast 10 ex_store 1 = [bB]" by code_simp
  have f: "dueResult NullsFirst 10 ex_store 5 = [bA, bB]" by code_simp
  have ne: "bA \<noteq> bB" by (simp add: bA_def bB_def)
  have "\<forall>x \<in> set (dueResult NullsLast 10 ex_store 1).
      \<forall>y \<in># mset (dueIn 10 ex_store) - mset (dueResult NullsLast 10 ex_store 1).
        dueBefore NullsLast x y"
    using getDueBookmarks_order[of NullsLast 10 ex_store 1] by blast
  then have b: "dueBefore NullsLast bB bA"
    unfolding d r using ne by simp
  have "sorted_wrt (dueBefore NullsFirst) (dueResult NullsFirst 10 ex_store 5)"
    using getDueBookmarks_order[of NullsFirst 10 ex_store 5] by blast
  with d r f b show ?thesis by simp
qed

text \<open>
  On PostgreSQL the never-reviewed bookmark \<open>bA\<close> comes after the overdue \<open>bB\<close>: the
  result is not in the order that puts nulls first.
\<close>

theorem getDueBookmarks_nulls_counterexample:
  "nextReviewAt bA = None \<and> nextReviewAt bB = Some 5 \<and>
   dueResult NullsLast 10 ex_store 5 = [bB, bA] \<and>
   \<not> sorted_wrt (dueBefore NullsFirst) (dueResult NullsLast 10 ex_store 5)"
  by code_simp







text \<open>
  The route \<^verbatim>\<open>GET /weakest\<close> leaves out the bookmarks without an attempt as well, but
  it ranks by another average: for \<open>bB\<close>, with four attempts, the rounded average of
  all four and not the average of the latest three.
\<close>

lemma set_slice0: "set (slice0 n xs) \<subseteq> set xs"
  by (auto simp: slice0_def dest: in_set_takeD)

lemma weakestRoute_has_attempts:
  assumes "r \<in> set (weakestRoute s limit)"
  shows "attemptsOf s (w_id r) \<noteq> []"
proof -
  from assms set_slice0 have "r \<in> set (filter (\<lambda>b. w_avgScore b \<noteq> None)
      (map (weakRowOf s) (bookmarks s)))"
    unfolding weakestRoute_def Let_def by fastforce
  then obtain b where b: "r = weakRowOf s b" "w_avgScore r \<noteq> None" by auto
  then have "take 5 (attemptsDesc (attemptsOf s (b_id b))) \<noteq> []"
    by (auto simp: weakRowOf_def Let_def split: if_splits)
  then have "attemptsOf s (b_id b) \<noteq> []"
    by (auto simp: attemptsDesc_def)
  moreover have "w_id r = b_id b" using b by (simp add: weakRowOf_def Let_def)
  ultimately show ?thesis by simp
qed

lemma weakestRoute_window:
  "map w_avgScore (weakestRoute ex_store 10) = [Some 30, Some (105 / 2)] \<and>
   map lb_avgRecentScore (getWeakestBookmarks ex_store 10) = [Some 30, Some (170 / 3)]"
  by code_simp

subsection \<open>The daily review set\<close>

lemma firstQuestion_loadDue: "firstQuestion (loadDue s b) = firstMcq s b"
  by (simp add: firstQuestion_def firstMcq_def loadDue_def split: list.splits)

lemma length_firstQuestion: "length (firstQuestion b) \<le> 1"
  by (simp add: firstQuestion_def split: option.splits list.splits)

lemma length_concat_firstQuestion: "length (concat (map firstQuestion bs)) \<le> length bs"
proof (induction bs)
  case Nil
  show ?case by simp
next
  case (Cons b bs)
  then show ?case using length_firstQuestion[of b] by simp
qed

lemma length_getDueBookmarks: "length (getDueBookmarks nulls now s limit) \<le> limit"
  by (simp add: getDueBookmarks_def)

text \<open>
  Claim C5, as the code has it.  The bookmarks of the daily review set are the first five
  of the combined list: the result of \<open>getDueBookmarks 5\<close>, in order and in place,
  followed by the bookmarks of \<open>getWeakestBookmarks 3\<close> whose id is not among the due
  ones.  The questions are, in the order of the selected bookmarks, at most one per
  bookmark and so at most five; a bookmark selected from the due list gives its first
  multiple-choice question and gives none when it has no multiple-choice question, whatever
  other questions it has.  \<open>totalDue\<close> is the length of the combined list before it is
  cut, so it counts every selected bookmark, with or without a question.
\<close>

theorem createDailyReviewSet_spec:
  "rs_bookmarks (createDailyReviewSet nulls now s) = take 5 (dailyCombined nulls now s) \<and>
   prefix (getDueBookmarks nulls now s 5) (rs_bookmarks (createDailyReviewSet nulls now s)) \<and>
   length (rs_bookmarks (createDailyReviewSet nulls now s)) \<le> 5 \<and>
   rs_questions (createDailyReviewSet nulls now s)
     = concat (map firstQuestion (rs_bookmarks (createDailyReviewSet nulls now s))) \<and>
   length (rs_questions (createDailyReviewSet nulls now s))
     \<le> length (rs_bookmarks (createDailyReviewSet nulls now s)) \<and>
   (\<forall>b \<in> set (rs_bookmarks (createDailyReviewSet nulls now s)). length (firstQuestion b) \<le> 1) \<and>
   (\<forall>b \<in> set (getDueBookmarks nulls now s 5).
      firstQuestion b = firstMcq s (lb_bookmark b)) \<and>
   totalDue (createDailyReviewSet nulls now s) = length (dailyCombined nulls now s) \<and>
   length (rs_bookmarks (createDailyReviewSet nulls now s))
     \<le> totalDue (createDailyReviewSet nulls now s)"
proof -
  let ?r = "createDailyReviewSet nulls now s"
  let ?due = "getDueBookmarks nulls now s 5"
  let ?c = "dailyCombined nulls now s"
  have 1: "rs_bookmarks ?r = take 5 ?c"
    by (simp add: createDailyReviewSet_def dailyCombined_def Let_def)
  have len: "length ?due \<le> 5" by (rule length_getDueBookmarks)
  have "take 5 ?c = ?due @ take (5 - length ?due)
          (filter (\<lambda>w. lb_id w \<notin> lb_id ` set ?due) (getWeakestBookmarks s 3))"
    using len unfolding dailyCombined_def by simp
  then have 2: "prefix ?due (rs_bookmarks ?r)"
    unfolding 1 by simp
  have 3: "length (rs_bookmarks ?r) \<le> 5" unfolding 1 by simp
  have q: "rs_questions ?r = take 5 (concat (map firstQuestion (take 5 ?c)))"
    by (simp add: createDailyReviewSet_def dailyCombined_def Let_def)
  have "length (concat (map firstQuestion (take 5 ?c))) \<le> 5"
    using length_concat_firstQuestion[of "take 5 ?c"] by simp
  then have 4: "rs_questions ?r = concat (map firstQuestion (rs_bookmarks ?r))"
    unfolding q 1 by simp
  have 5: "length (rs_questions ?r) \<le> length (rs_bookmarks ?r)"
    unfolding 4 by (rule length_concat_firstQuestion)
  have 6: "\<forall>b \<in> set (rs_bookmarks ?r). length (firstQuestion b) \<le> 1"
    using length_firstQuestion by blast
  have 7: "\<forall>b \<in> set ?due. firstQuestion b = firstMcq s (lb_bookmark b)"
    by (auto simp: getDueBookmarks_def firstQuestion_loadDue)
  have 8: "totalDue ?r = length ?c"
    by (simp add: createDailyReviewSet_def dailyCombined_def Let_def)
  have 9: "length (rs_bookmarks ?r) \<le> totalDue ?r"
    unfolding 1 8 by simp
  from 1 2 3 4 5 6 7 8 9 show ?thesis by blast
qed

theorem createDailyReviewSet_spec_witness:
  "getDueBookmarks NullsLast 10 ex_store 5 = [loadDue ex_store bB, loadDue ex_store bA] \<and>
   map lb_id (rs_bookmarks (createDailyReviewSet NullsLast 10 ex_store)) = [''bB'', ''bA'', ''bC''] \<and>
   firstQuestion (loadDue ex_store bB) = firstMcq ex_store bB \<and>
   firstMcq ex_store bB
     = [\<lparr>rq_question = mkQuestion ''qB1'' ''bB'' ''mcq'' ''gamma'', bookmarkTitle = ''B''\<rparr>] \<and>
   firstQuestion (loadDue ex_store bA) = [] \<and>
   totalDue (createDailyReviewSet NullsLast 10 ex_store) = 3"
proof -
  have d: "getDueBookmarks NullsLast 10 ex_store 5 = [loadDue ex_store bB, loadDue ex_store bA]"
    by code_simp
  have i: "map lb_id (rs_bookmarks (createDailyReviewSet NullsLast 10 ex_store))
             = [''bB'', ''bA'', ''bC'']"
    by code_simp
  have m: "firstMcq ex_store bB
     = [\<lparr>rq_question = mkQuestion ''qB1'' ''bB'' ''mcq'' ''gamma'', bookmarkTitle = ''B''\<rparr>]"
    by code_simp
  have n: "firstMcq ex_store bA = []" by code_simp
  have t: "totalDue (createDailyReviewSet NullsLast 10 ex_store) = 3" by code_simp
  have "\<forall>b \<in> set (getDueBookmarks NullsLast 10 ex_store 5).
      firstQuestion b = firstMcq ex_store (lb_bookmark b)"
    using createDailyReviewSet_spec[of NullsLast 10 ex_store] by blast
  then have "firstQuestion (loadDue ex_store bB) = firstMcq ex_store bB"
    and "firstQuestion (loadDue ex_store bA) = firstMcq ex_store bA"
    unfolding d by simp_all
  with d i m n t show ?thesis by simp
qed

text \<open>
  The selected bookmark \<open>bA\<close> has a question, a short-answer one, and contributes no
  question to the daily review: multiple choice is required, not preferred.
\<close>

theorem createDailyReviewSet_questions_counterexample:
  "map lb_id (rs_bookmarks (createDailyReviewSet NullsLast 10 ex_store)) = [''bB'', ''bA'', ''bC''] \<and>
   questionsOf ex_store ''bA'' = [mkQuestion ''qA'' ''bA'' ''short'' ''alpha''] \<and>
   rs_questions (createDailyReviewSet NullsLast 10 ex_store)
     = [\<lparr>rq_question = mkQuestion ''qB1'' ''bB'' ''mcq'' ''gamma'', bookmarkTitle = ''B''\<rparr>]"
  by code_simp

subsection \<open>Quiz submission\<close>





lemma round2_0 [simp]: "round2 0 = 0"
  by (simp add: round2_def js_round_def floor_eq_iff)


text \<open>A body that fails the schema is answered with the validation error, and nothing is written.\<close>

lemma submitQuiz_invalid:
  "\<not> submitQuizSchema d \<Longrightarrow> submitQuiz tz now s d = (Inl ValidationError, s)"
  by (simp add: submitQuiz_def)







subsection \<open>Trend series\<close>






lemma addAll_Nil [simp]: "addAll k [] day = day"
  by (simp add: addAll_def)

















subsection \<open>The weak-category insight\<close>











lemma weak_priority:
  "i \<in> set (weakCategoryOf e) \<Longrightarrow> i_priority i = Critical \<and> i_type i = ''weak_category''"
  by (auto simp: weakCategoryOf_def mkInsight_def Let_def split: if_splits prod.splits)






end
